theory Spec2Isabelle
  imports Main "HOL-Library.Word" "HOL-Library.Multiset" "HOL-Library.Code_Target_Nat"
begin

section \<open>Shared vocabulary: keys, transactions, the gateway and the clock\<close>

text \<open>
  The repository holds three programs: the bulk transfer tool (Go,
  \<^verbatim>\<open>bulk-sol-transfer.go\<close>), the slot-triggered sender (Go,
  \<^verbatim>\<open>solana-geyser-subscription.go\<close>) and the multi-wallet CLI (Rust, in the
  same file). They are embedded one function at a time. Calls into the Solana
  client libraries are parameters of the model (\<open>solana_lib\<close>, \<open>gateway\<close>): a
  library call returns what its signature says (a value, or an error where the
  signature has one); deriving the public key of an account is the one call
  that may also panic, on a private key it cannot use. Panics are written out
  as values: that one, and those of the languages themselves (slice bounds,
  index out of range, a string cut inside a character, integer division by
  zero).

  A public key, a blockhash and a signature are identified with their base58
  text. Durations and clock readings are natural numbers of nanoseconds.
\<close>

type_synonym byte = "8 word"

datatype panic =
  IntegerDivideByZero
| SliceBoundsOutOfRange nat nat
| IndexOutOfBounds nat nat
| ByteIndexNotCharBoundary nat
| LibraryPanic string
type_synonym pubkey = string
type_synonym hash = string
type_synonym signature = string

datatype account = Account (PrivateKey: "byte list")

datatype instruction = Transfer (lamports: "64 word") (from_pubkey: pubkey) (to_pubkey: pubkey)

record transaction =
  instructions :: "instruction list"
  blockhash :: hash
  payer :: pubkey
  signers :: "pubkey list"

text \<open>
  The reply to one status query for one signature: the query itself failed,
  the network has not seen the transaction yet (\<open>nil\<close> in Go, \<open>None\<close> in
  Rust), or a status is present, carrying the on-chain error if there is one.
  In Go this is \<^verbatim>\<open>status.Value[0]\<close>: the RPC answers with one entry per
  queried signature, and the programs query one.
\<close>

datatype status_reply = QueryFailed string | Absent | Present "string option"

datatype rpc_call =
  GetRecentBlockhash
| SendTransaction transaction
| GetSignatureStatus signature

text \<open>
  What one worker observes of the network: the answer to its blockhash
  request, to its submission, and to its \<open>k\<close>-th status query of a signature
  (\<open>k\<close> counts from 0), and how long one round trip takes.
\<close>

record gateway =
  recent_blockhash :: "string + hash"
  send_transaction :: "transaction \<Rightarrow> string + signature"
  signature_status :: "signature \<Rightarrow> nat \<Rightarrow> status_reply"
  rpc_latency :: nat

text \<open>
  The state a worker threads through its calls: the wall clock and the
  gateway calls made so far, oldest first. A gateway call takes one round
  trip, a sleep its duration, everything else no time. The calls of the Rust
  client (\<^verbatim>\<open>get_latest_blockhash\<close>, \<^verbatim>\<open>send_transaction\<close>,
  \<^verbatim>\<open>get_signature_status\<close>) are logged under the same three names.
\<close>

record world =
  clock :: nat
  calls :: "rpc_call list"

definition rpc :: "gateway \<Rightarrow> rpc_call \<Rightarrow> world \<Rightarrow> world" where
  "rpc gw c w = w\<lparr>clock := clock w + rpc_latency gw, calls := calls w @ [c]\<rparr>"

definition sleep :: "nat \<Rightarrow> world \<Rightarrow> world" where
  "sleep d w = w\<lparr>clock := clock w + d\<rparr>"

definition poll_interval :: nat where
  "poll_interval = 500 * 1000000"

text \<open>
  The state after \<open>n\<close> rounds of a status query for \<open>sig\<close> followed by a
  sleep of one poll interval.
\<close>

definition polled :: "gateway \<Rightarrow> signature \<Rightarrow> nat \<Rightarrow> world \<Rightarrow> world" where
  "polled gw sig n w =
     w\<lparr>clock := clock w + n * (rpc_latency gw + poll_interval),
       calls := calls w @ replicate n (GetSignatureStatus sig)\<rparr>"

section \<open>The bulk transfer tool (Go)\<close>

record TransferInstruction =
  FromPrivateKey :: string
  ToAddress :: string
  Amount :: "64 word"

datatype go_error =
  DecodeKeyFailed string
| InvalidDestination string
| BlockhashFailed string
| CreateTransactionFailed string
| SignFailed string
| SendFailed string
| StatusQueryFailed string
| TransactionFailed string

record TransferResult =
  FromAccount :: string
  ToAccount :: string
  ResultAmount :: "64 word"
  Signature :: string
  Status :: string
  ProcessingTime :: nat
  Error :: "go_error option"

text \<open>
  The library calls of \<^verbatim>\<open>executeTransfer\<close> and \<^verbatim>\<open>sendTransaction\<close>:
  base64 decoding, key derivation, address parsing, transaction construction
  and signing. \<open>public_key\<close> is \<^verbatim>\<open>account.PublicKey()\<close>: the public key of
  the account's private key bytes, or the message of the panic it raises when
  the bytes are not a private key it can use.
\<close>

record solana_lib =
  decode_string :: "string \<Rightarrow> string + byte list"
  public_key :: "byte list \<Rightarrow> string + pubkey"
  pubkey_from_base58 :: "string \<Rightarrow> string + pubkey"
  new_transaction :: "instruction list \<Rightarrow> hash \<Rightarrow> pubkey \<Rightarrow> string + transaction"
  sign :: "transaction \<Rightarrow> account \<Rightarrow> string + transaction"
  new_key_from_seed :: "byte list \<Rightarrow> byte list"

text \<open>
  How the status loop of \<^verbatim>\<open>executeTransfer\<close> is left: by \<^verbatim>\<open>return\<close>
  after sending an error result, or by \<^verbatim>\<open>break\<close> with the result updated.
\<close>

datatype loop_exit = LoopReturn "TransferResult list" world | LoopBreak TransferResult world

text \<open>
  \<^verbatim>\<open>for { ... }\<close> of \<^verbatim>\<open>executeTransfer\<close> (lines 144-167). The loop has no
  bound: \<open>None\<close> is the loop that never ends. \<open>k\<close> numbers the status query.
\<close>

partial_function (option) status_loop ::
  "gateway \<Rightarrow> signature \<Rightarrow> nat \<Rightarrow> TransferResult \<Rightarrow> world \<Rightarrow> loop_exit option" where
  "status_loop gw sig k result w =
     (case signature_status gw sig k of
        QueryFailed e \<Rightarrow>
          Some (LoopReturn [result\<lparr>Error := Some (StatusQueryFailed e)\<rparr>]
                  (rpc gw (GetSignatureStatus sig) w))
      | Present (Some e) \<Rightarrow>
          Some (LoopBreak (result\<lparr>Status := ''Failed'', Error := Some (TransactionFailed e)\<rparr>)
                  (rpc gw (GetSignatureStatus sig) w))
      | Present None \<Rightarrow>
          Some (LoopBreak (result\<lparr>Status := ''Confirmed''\<rparr>)
                  (rpc gw (GetSignatureStatus sig) w))
      | Absent \<Rightarrow>
          status_loop gw sig (Suc k) result
            (sleep poll_interval (rpc gw (GetSignatureStatus sig) w)))"

declare status_loop.simps [code]

text \<open>
  \<^verbatim>\<open>executeTransfer\<close> (lines 55-171). It ends with the results it sent on
  the channel (\<open>Inr\<close>) or with a panic (\<open>Inl\<close>), and the final state;
  \<open>None\<close> is the worker that never returns. Every
  \<^verbatim>\<open>results <- result; return\<close> of the source is one \<open>Some (Inr [result], w)\<close>.
  The first \<^verbatim>\<open>account.PublicKey()\<close> is at line 74, before the destination
  address is parsed; the later ones (lines 96, 104, 115) are the same call on
  the same key.
\<close>

definition executeTransfer ::
  "solana_lib \<Rightarrow> gateway \<Rightarrow> TransferInstruction \<Rightarrow> world \<Rightarrow>
   ((panic + TransferResult list) \<times> world) option" where
  "executeTransfer lib gw transfer w =
     (let result = \<lparr>FromAccount = '''', ToAccount = '''', ResultAmount = Amount transfer,
                     Signature = '''', Status = '''', ProcessingTime = 0, Error = None\<rparr>;
          startTime = clock w
      in case decode_string lib (FromPrivateKey transfer) of
        Inl e \<Rightarrow> Some (Inr [result\<lparr>Error := Some (DecodeKeyFailed e)\<rparr>], w)
      | Inr privateKeyBytes \<Rightarrow>
      let account = Account privateKeyBytes
      in case public_key lib (PrivateKey account) of
        Inl msg \<Rightarrow> Some (Inl (LibraryPanic msg), w)
      | Inr accountKey \<Rightarrow>
      let result = result\<lparr>FromAccount := accountKey\<rparr>
      in case pubkey_from_base58 lib (ToAddress transfer) of
        Inl e \<Rightarrow> Some (Inr [result\<lparr>Error := Some (InvalidDestination e)\<rparr>], w)
      | Inr destination \<Rightarrow>
      let result = result\<lparr>ToAccount := destination\<rparr>;
          w1 = rpc gw GetRecentBlockhash w
      in case recent_blockhash gw of
        Inl e \<Rightarrow> Some (Inr [result\<lparr>Error := Some (BlockhashFailed e)\<rparr>], w1)
      | Inr recentBlockhash \<Rightarrow>
      let instruction = Transfer (Amount transfer) accountKey destination
      in case new_transaction lib [instruction] recentBlockhash accountKey of
        Inl e \<Rightarrow> Some (Inr [result\<lparr>Error := Some (CreateTransactionFailed e)\<rparr>], w1)
      | Inr tx \<Rightarrow>
      case sign lib tx account of
        Inl e \<Rightarrow> Some (Inr [result\<lparr>Error := Some (SignFailed e)\<rparr>], w1)
      | Inr signed_tx \<Rightarrow>
      let w2 = rpc gw (SendTransaction signed_tx) w1
      in case send_transaction gw signed_tx of
        Inl e \<Rightarrow> Some (Inr [result\<lparr>Error := Some (SendFailed e)\<rparr>], w2)
      | Inr sig \<Rightarrow>
      let result = result\<lparr>Signature := sig\<rparr>
      in case status_loop gw sig 0 result w2 of
        None \<Rightarrow> None
      | Some (LoopReturn sent w3) \<Rightarrow> Some (Inr sent, w3)
      | Some (LoopBreak result w3) \<Rightarrow>
          Some (Inr [result\<lparr>ProcessingTime := clock w3 - startTime\<rparr>], w3))"

text \<open>
  The tail of \<^verbatim>\<open>main\<close> (lines 204-260): the loop over the results channel
  and the statistics. Go's \<^verbatim>\<open>int\<close> counters and \<^verbatim>\<open>time.Duration\<close> sums are
  natural numbers here (no run reaches their 64-bit limits).
\<close>

record statistics =
  successCount :: nat
  failCount :: nat
  totalProcessingTime :: nat
  minTime :: nat
  maxTime :: nat
  allResults :: "TransferResult list"

definition no_statistics :: statistics where
  "no_statistics = \<lparr>successCount = 0, failCount = 0, totalProcessingTime = 0,
                      minTime = 0, maxTime = 0, allResults = []\<rparr>"

text \<open>One pass of \<^verbatim>\<open>for result := range results\<close> (lines 213-240).\<close>

definition collect :: "statistics \<Rightarrow> TransferResult \<Rightarrow> statistics" where
  "collect st0 result =
     (let st1 = st0\<lparr>allResults := allResults st0 @ [result]\<rparr>;
          st2 = (if minTime st1 = 0 then st1\<lparr>minTime := ProcessingTime result\<rparr> else st1);
          st3 = (if ProcessingTime result < minTime st2
                 then st2\<lparr>minTime := ProcessingTime result\<rparr> else st2);
          st4 = (if ProcessingTime result > maxTime st3
                 then st3\<lparr>maxTime := ProcessingTime result\<rparr> else st3);
          st5 = st4\<lparr>totalProcessingTime := totalProcessingTime st4 + ProcessingTime result\<rparr>
      in if Error result \<noteq> None
         then st5\<lparr>failCount := failCount st5 + 1\<rparr>
         else st5\<lparr>successCount := successCount st5 + 1\<rparr>)"

text \<open>
  What the process ends with once the channel is closed: the statistics, the
  average and the exit code, or the panic of the division at line 244.
  \<open>n\<close> is \<^verbatim>\<open>len(config.Transfers)\<close>, \<open>received\<close> the results in the order the
  channel delivered them.
\<close>

definition report ::
  "nat \<Rightarrow> TransferResult list \<Rightarrow> panic + (statistics \<times> nat \<times> nat)" where
  "report n received =
     (let st = foldl collect no_statistics received
      in if n = 0 then Inl IntegerDivideByZero
         else let avgProcessingTime = totalProcessingTime st div n
              in Inr (st, avgProcessingTime, if failCount st > 0 then 1 else 0))"

text \<open>
  \<^verbatim>\<open>main\<close> from the loaded configuration on (lines 183-260). Worker \<open>i\<close> runs
  against its own view \<open>gws i\<close> of the network, from the state \<open>w\<close> in which
  the goroutines are started.
\<close>

definition run_workers ::
  "solana_lib \<Rightarrow> (nat \<Rightarrow> gateway) \<Rightarrow> TransferInstruction list \<Rightarrow> world \<Rightarrow>
   ((panic + TransferResult list) \<times> world) option list" where
  "run_workers lib gws transfers w =
     map (\<lambda>(i, transfer). executeTransfer lib (gws i) transfer w) (enumerate 0 transfers)"

text \<open>
  What \<^verbatim>\<open>main\<close> gets from the workers. A panic in any goroutine ends the
  whole process, whatever the other workers are doing (\<open>Inl\<close>, the panic of the
  first such worker). Otherwise the channel is closed only after every worker
  has returned, so a worker that never returns leaves \<^verbatim>\<open>main\<close> waiting
  (\<open>None\<close>). Otherwise \<^verbatim>\<open>main\<close> receives what the workers sent, listed here
  in worker order; the channel may deliver it in another one.
\<close>

fun gather ::
  "((panic + TransferResult list) \<times> world) option list \<Rightarrow> (panic + TransferResult list) option" where
  "gather [] = Some (Inr [])"
| "gather (Some (Inl p, w) # ends) = Some (Inl p)"
| "gather (Some (Inr sent, w) # ends) =
     (case gather ends of
        None \<Rightarrow> None
      | Some (Inl p) \<Rightarrow> Some (Inl p)
      | Some (Inr rest) \<Rightarrow> Some (Inr (sent @ rest)))"
| "gather (None # ends) =
     (case gather ends of
        Some (Inl p) \<Rightarrow> Some (Inl p)
      | _ \<Rightarrow> None)"

definition received ::
  "solana_lib \<Rightarrow> (nat \<Rightarrow> gateway) \<Rightarrow> TransferInstruction list \<Rightarrow> world \<Rightarrow>
   (panic + TransferResult list) option" where
  "received lib gws transfers w = gather (run_workers lib gws transfers w)"

definition main_go ::
  "solana_lib \<Rightarrow> (nat \<Rightarrow> gateway) \<Rightarrow> TransferInstruction list \<Rightarrow> world \<Rightarrow>
   (panic + (statistics \<times> nat \<times> nat)) option" where
  "main_go lib gws transfers w =
     (case received lib gws transfers w of
        None \<Rightarrow> None
      | Some (Inl p) \<Rightarrow> Some (Inl p)
      | Some (Inr results) \<Rightarrow> Some (report (length transfers) results))"

text \<open>
  The exit status of the Go process: 2 after an unrecovered panic (the Go
  runtime's), otherwise what \<^verbatim>\<open>main\<close> chose (\<^verbatim>\<open>os.Exit(1)\<close> or a plain
  return, 0).
\<close>

definition go_exit_code :: "panic + (statistics \<times> nat \<times> nat) \<Rightarrow> nat" where
  "go_exit_code r = (case r of Inl p \<Rightarrow> 2 | Inr (st, avg, code) \<Rightarrow> code)"

section \<open>The slot-triggered sender (Go)\<close>

text \<open>
  A Go slice: the elements up to its length, and the rest of its backing
  array up to its capacity. \<^verbatim>\<open>s[:n]\<close> is checked against the capacity.
\<close>

record go_slice =
  elems :: "byte list"
  spare :: "byte list"

definition cap :: "go_slice \<Rightarrow> nat" where
  "cap s = length (elems s) + length (spare s)"

definition slice_to :: "go_slice \<Rightarrow> nat \<Rightarrow> panic + byte list" where
  "slice_to s n =
     (if n \<le> cap s then Inr (take n (elems s @ spare s))
      else Inl (SliceBoundsOutOfRange n (cap s)))"

text \<open>
  \<^verbatim>\<open>sendTransaction\<close> (lines 137-198): the returned \<^verbatim>\<open>error\<close> (\<open>None\<close> is
  \<^verbatim>\<open>nil\<close>), or a panic: that of \<^verbatim>\<open>privateKeyBytes[:32]\<close>, or that of
  \<^verbatim>\<open>account.PublicKey()\<close>, first called at line 159. Its errors reuse
  \<open>go_error\<close>; \<open>InvalidDestination\<close> stands for "invalid recipient address".
\<close>

definition sendTransaction ::
  "solana_lib \<Rightarrow> gateway \<Rightarrow> go_slice \<Rightarrow> string \<Rightarrow> 64 word \<Rightarrow> world \<Rightarrow>
   (panic + go_error option) \<times> world" where
  "sendTransaction lib gw privateKeyBytes recipientAddr amount w =
     (case slice_to privateKeyBytes 32 of
        Inl p \<Rightarrow> (Inl p, w)
      | Inr seed \<Rightarrow>
      let privateKey = new_key_from_seed lib seed;
          account = Account privateKey;
          w1 = rpc gw GetRecentBlockhash w
      in case recent_blockhash gw of
        Inl e \<Rightarrow> (Inr (Some (BlockhashFailed e)), w1)
      | Inr recentBlockhash \<Rightarrow>
      case pubkey_from_base58 lib recipientAddr of
        Inl e \<Rightarrow> (Inr (Some (InvalidDestination e)), w1)
      | Inr recipient \<Rightarrow>
      case public_key lib (PrivateKey account) of
        Inl msg \<Rightarrow> (Inl (LibraryPanic msg), w1)
      | Inr accountKey \<Rightarrow>
      case new_transaction lib [Transfer amount accountKey recipient]
             recentBlockhash accountKey of
        Inl e \<Rightarrow> (Inr (Some (CreateTransactionFailed e)), w1)
      | Inr tx \<Rightarrow>
      case sign lib tx account of
        Inl e \<Rightarrow> (Inr (Some (SignFailed e)), w1)
      | Inr signed_tx \<Rightarrow>
      let w2 = rpc gw (SendTransaction signed_tx) w1
      in case send_transaction gw signed_tx of
        Inl e \<Rightarrow> (Inr (Some (SendFailed e)), w2)
      | Inr sig \<Rightarrow> (Inr None, w2))"

section \<open>The multi-wallet CLI (Rust)\<close>

record WalletInfo =
  address :: string
  keypair_path :: "string option"

record WalletConfig =
  from_wallets :: "WalletInfo list"
  to_wallets :: "WalletInfo list"

text \<open>
  The Rust \<^verbatim>\<open>TransferResult\<close>; its fields \<^verbatim>\<open>from\<close> and \<^verbatim>\<open>to\<close> are
  \<open>from_address\<close> and \<open>to_address\<close> (\<^verbatim>\<open>from\<close> is a keyword here).
\<close>

record TransferResult_rs =
  from_address :: string
  to_address :: string
  signature_text :: string
  success :: bool
  processing_time :: nat

datatype keypair = Keypair (secret: "byte list") (pubkey: pubkey)

datatype rs_error =
  KeypairFileError string
| InvalidFromAddress string
| InvalidToAddress string
| KeypairMismatch pubkey pubkey
| ClientError string
| FailedStatus string
| StatusError string
| ConfirmationTimedOut

record rust_lib =
  read_keypair_file :: "string \<Rightarrow> string + keypair"
  pubkey_from_str :: "string \<Rightarrow> string + pubkey"

definition max_retries :: nat where
  "max_retries = 20"

text \<open>
  \<^verbatim>\<open>for _ in 0..max_retries\<close> (lines 487-505) with \<open>n\<close> iterations left and
  \<open>k\<close> the number of the status query: the value of \<^verbatim>\<open>confirmed\<close> when the
  loop ends, or the error it returns with.
\<close>

fun confirmation_loop ::
  "gateway \<Rightarrow> signature \<Rightarrow> nat \<Rightarrow> nat \<Rightarrow> world \<Rightarrow> (rs_error + bool) \<times> world" where
  "confirmation_loop gw sig 0 k w = (Inr False, w)"
| "confirmation_loop gw sig (Suc n) k w =
     (case signature_status gw sig k of
        Present None \<Rightarrow> (Inr True, rpc gw (GetSignatureStatus sig) w)
      | Present (Some e) \<Rightarrow> (Inl (FailedStatus e), rpc gw (GetSignatureStatus sig) w)
      | Absent \<Rightarrow>
          confirmation_loop gw sig n (Suc k)
            (sleep poll_interval (rpc gw (GetSignatureStatus sig) w))
      | QueryFailed e \<Rightarrow> (Inl (StatusError e), rpc gw (GetSignatureStatus sig) w))"

text \<open>\<^verbatim>\<open>execute_single_transfer\<close> (lines 438-514).\<close>

definition execute_single_transfer ::
  "rust_lib \<Rightarrow> gateway \<Rightarrow> string \<Rightarrow> string \<Rightarrow> string \<Rightarrow> 64 word \<Rightarrow> world \<Rightarrow>
   (rs_error + (string \<times> nat)) \<times> world" where
  "execute_single_transfer lib gw path from_pubkey_str to_pubkey_str amount w =
     (let start_time = clock w
      in case read_keypair_file lib path of
        Inl e \<Rightarrow> (Inl (KeypairFileError e), w)
      | Inr from_keypair \<Rightarrow>
      case pubkey_from_str lib from_pubkey_str of
        Inl e \<Rightarrow> (Inl (InvalidFromAddress e), w)
      | Inr from_pk \<Rightarrow>
      case pubkey_from_str lib to_pubkey_str of
        Inl e \<Rightarrow> (Inl (InvalidToAddress e), w)
      | Inr to_pk \<Rightarrow>
      if pubkey from_keypair \<noteq> from_pk
      then (Inl (KeypairMismatch (pubkey from_keypair) from_pk), w)
      else
      let w1 = rpc gw GetRecentBlockhash w
      in case recent_blockhash gw of
        Inl e \<Rightarrow> (Inl (ClientError e), w1)
      | Inr recent \<Rightarrow>
      let tx = \<lparr>instructions = [Transfer amount from_pk to_pk], blockhash = recent,
                payer = from_pk, signers = [pubkey from_keypair]\<rparr>;
          w2 = rpc gw (SendTransaction tx) w1
      in case send_transaction gw tx of
        Inl e \<Rightarrow> (Inl (ClientError e), w2)
      | Inr sig \<Rightarrow>
      case confirmation_loop gw sig max_retries 0 w2 of
        (Inl e, w3) \<Rightarrow> (Inl e, w3)
      | (Inr confirmed, w3) \<Rightarrow>
          if \<not> confirmed then (Inl ConfirmationTimedOut, w3)
          else (Inr (sig, clock w3 - start_time), w3))"

text \<open>
  The task spawned for one source wallet (lines 397-427): the result of
  \<^verbatim>\<open>execute_single_transfer\<close> turned into a \<^verbatim>\<open>TransferResult\<close>.
\<close>

definition transfer_task ::
  "rust_lib \<Rightarrow> gateway \<Rightarrow> string \<Rightarrow> string \<Rightarrow> string \<Rightarrow> 64 word \<Rightarrow> world \<Rightarrow>
   TransferResult_rs" where
  "transfer_task lib gw path from_pubkey_str to_pubkey_str amount w =
     (case fst (execute_single_transfer lib gw path from_pubkey_str to_pubkey_str amount w) of
        Inr (sig, elapsed) \<Rightarrow>
          \<lparr>from_address = from_pubkey_str, to_address = to_pubkey_str,
           signature_text = sig, success = True, processing_time = elapsed\<rparr>
      | Inl e \<Rightarrow>
          \<lparr>from_address = from_pubkey_str, to_address = to_pubkey_str,
           signature_text = ''FAILED'', success = False, processing_time = 0\<rparr>)"

text \<open>Rust's \<^verbatim>\<open>v[i]\<close>: a panic when \<open>i\<close> is out of range.\<close>

definition index :: "'a list \<Rightarrow> nat \<Rightarrow> panic + 'a" where
  "index xs i = (if i < length xs then Inr (xs ! i) else Inl (IndexOutOfBounds i (length xs)))"

text \<open>
  The loop of \<^verbatim>\<open>execute_transfers\<close> (lines 377-428) over the enumerated
  source wallets, and the results of the tasks it spawned, in spawn order
  (\<^verbatim>\<open>join_all\<close> keeps it). Task \<open>i\<close> sees the network as \<open>gws i\<close> and
  starts in the state \<open>w\<close> in which it was spawned. A task always ends with
  a result, so \<^verbatim>\<open>filter_map(|r| r.ok())\<close> drops none.
\<close>

fun transfer_tasks ::
  "rust_lib \<Rightarrow> (nat \<Rightarrow> gateway) \<Rightarrow> WalletInfo list \<Rightarrow> 64 word \<Rightarrow> world \<Rightarrow>
   (nat \<times> WalletInfo) list \<Rightarrow> panic + TransferResult_rs list" where
  "transfer_tasks lib gws tos amount w [] = Inr []"
| "transfer_tasks lib gws tos amount w ((i, from_wallet) # rest) =
     (case (if i < length tos then index tos i else index tos 0) of
        Inl p \<Rightarrow> Inl p
      | Inr to_wallet \<Rightarrow>
          (case keypair_path from_wallet of
             None \<Rightarrow> transfer_tasks lib gws tos amount w rest
           | Some path \<Rightarrow>
               (case transfer_tasks lib gws tos amount w rest of
                  Inl p \<Rightarrow> Inl p
                | Inr results \<Rightarrow>
                    Inr (transfer_task lib (gws i) path (address from_wallet)
                           (address to_wallet) amount w # results))))"

definition execute_transfers ::
  "rust_lib \<Rightarrow> (nat \<Rightarrow> gateway) \<Rightarrow> WalletConfig \<Rightarrow> 64 word \<Rightarrow> world \<Rightarrow>
   panic + TransferResult_rs list" where
  "execute_transfers lib gws config amount w =
     transfer_tasks lib gws (to_wallets config) amount w (enumerate 0 (from_wallets config))"

text \<open>
  \<^verbatim>\<open>shorten_address\<close> (lines 516-524). A Rust string is its UTF-8 bytes;
  \<^verbatim>\<open>address.len()\<close> counts bytes, and \<^verbatim>\<open>&address[..5]\<close> and
  \<^verbatim>\<open>&address[address.len() - 5..]\<close> panic when the cut is inside a
  character, that is when the byte there is a continuation byte
  (\<open>0x80\<close> to \<open>0xBF\<close>). The parameter \<^verbatim>\<open>address\<close> is \<open>addr\<close> here
  (\<open>address\<close> is the field of \<open>WalletInfo\<close>).
\<close>

definition is_char_boundary :: "string \<Rightarrow> nat \<Rightarrow> bool" where
  "is_char_boundary s i =
     (if i = 0 \<or> i = length s then True
      else if length s < i then False
      else (of_char (s ! i) :: nat) < 128 \<or> 192 \<le> (of_char (s ! i) :: nat))"

definition shorten_address :: "string \<Rightarrow> panic + string" where
  "shorten_address addr =
     (if length addr \<le> 10 then Inr addr
      else if \<not> is_char_boundary addr 5 then Inl (ByteIndexNotCharBoundary 5)
      else if \<not> is_char_boundary addr (length addr - 5)
      then Inl (ByteIndexNotCharBoundary (length addr - 5))
      else Inr (take 5 addr @ ''...'' @ drop (length addr - 5) addr))"

text \<open>Text of ASCII characters only, as every base58 address is.\<close>

definition ascii :: "string \<Rightarrow> bool" where
  "ascii s = list_all (\<lambda>c. (of_char c :: nat) < 128) s"

text \<open>
  The loop that prints the results (lines 341-354): the shortened addresses
  of each row, or the panic of \<^verbatim>\<open>shorten_address\<close>.
\<close>

fun print_results :: "TransferResult_rs list \<Rightarrow> panic + (string \<times> string) list" where
  "print_results [] = Inr []"
| "print_results (result # rest) =
     (case shorten_address (from_address result) of
        Inl p \<Rightarrow> Inl p
      | Inr from_short \<Rightarrow>
          (case shorten_address (to_address result) of
             Inl p \<Rightarrow> Inl p
           | Inr to_short \<Rightarrow>
               (case print_results rest of
                  Inl p \<Rightarrow> Inl p
                | Inr rows \<Rightarrow> Inr ((from_short, to_short) # rows))))"

text \<open>
  \<^verbatim>\<open>main\<close> from the call of \<^verbatim>\<open>execute_transfers\<close> on (lines 329-367): the
  rows, then the summary, with the average in milliseconds only when there is
  a result. The exit status is 0 for the \<^verbatim>\<open>Ok(())\<close> it returns and 101 after
  a panic (the Rust runtime's).
\<close>

record summary =
  total_transfers :: nat
  successful_transfers :: nat
  failed_transfers :: nat
  avg_time :: "nat option"

definition summarize :: "TransferResult_rs list \<Rightarrow> summary" where
  "summarize results =
     (let success_count = length (filter success results);
          total_time = sum_list (map processing_time results)
      in \<lparr>total_transfers = length results,
          successful_transfers = success_count,
          failed_transfers = length results - success_count,
          avg_time = (if results \<noteq> []
                      then Some ((total_time div 1000000) div length results) else None)\<rparr>)"

definition main_rs ::
  "rust_lib \<Rightarrow> (nat \<Rightarrow> gateway) \<Rightarrow> WalletConfig \<Rightarrow> 64 word \<Rightarrow> world \<Rightarrow> panic + summary" where
  "main_rs lib gws config amount w =
     (case execute_transfers lib gws config amount w of
        Inl p \<Rightarrow> Inl p
      | Inr results \<Rightarrow>
          (case print_results results of
             Inl p \<Rightarrow> Inl p
           | Inr rows \<Rightarrow> Inr (summarize results)))"

definition rs_exit_code :: "panic + summary \<Rightarrow> nat" where
  "rs_exit_code r = (case r of Inl p \<Rightarrow> 101 | Inr s \<Rightarrow> 0)"

section \<open>Concrete inputs\<close>

text \<open>
  A stand-in for the library: every key text but two decodes to 64 zero bytes,
  \<open>!\<close> is not base64, and \<open>AQID\<close> decodes to the three bytes 1, 2, 3, as
  it does in base64. The public key of 64 bytes is \<open>PUB\<close>; deriving it from a
  key of another length panics. Every address but \<open>?\<close> parses.
\<close>

definition lib0 :: solana_lib where
  "lib0 = \<lparr>decode_string = (\<lambda>s. if s = ''!'' then Inl ''illegal base64 data''
                                else if s = ''AQID'' then Inr [1, 2, 3]
                                else Inr (replicate 64 0)),
           public_key = (\<lambda>bs. if length bs = 64 then Inr ''PUB''
                              else Inl ''bad private key length''),
           pubkey_from_base58 = (\<lambda>s. if s = ''?'' then Inl ''invalid base58'' else Inr s),
           new_transaction = (\<lambda>is bh p. Inr \<lparr>instructions = is, blockhash = bh, payer = p, signers = []\<rparr>),
           sign = (\<lambda>tx a. Inr (tx\<lparr>signers := [''PUB'']\<rparr>)),
           new_key_from_seed = (\<lambda>seed. seed @ seed)\<rparr>"

text \<open>
  Four views of the network, all with a round trip of 7 ns: the status
  is never present; it is present and good at the third query; the blockhash
  request fails; the transaction fails on chain.
\<close>

definition gw_absent :: gateway where
  "gw_absent = \<lparr>recent_blockhash = Inr ''HASH'', send_transaction = (\<lambda>tx. Inr ''SIG''),
                signature_status = (\<lambda>sig k. Absent), rpc_latency = 7\<rparr>"

definition gw_ok :: gateway where
  "gw_ok = \<lparr>recent_blockhash = Inr ''HASH'', send_transaction = (\<lambda>tx. Inr ''SIG''),
            signature_status = (\<lambda>sig k. if k < 2 then Absent else Present None), rpc_latency = 7\<rparr>"


definition gw_rejecting :: gateway where
  "gw_rejecting = \<lparr>recent_blockhash = Inr ''HASH'', send_transaction = (\<lambda>tx. Inr ''SIG''),
                   signature_status = (\<lambda>sig k. Present (Some ''insufficient funds'')), rpc_latency = 7\<rparr>"

definition w0 :: world where
  "w0 = \<lparr>clock = 1000, calls = []\<rparr>"

definition transfer0 :: TransferInstruction where
  "transfer0 = \<lparr>FromPrivateKey = ''KEY'', ToAddress = ''DEST'', Amount = 5\<rparr>"

definition rlib0 :: rust_lib where
  "rlib0 = \<lparr>read_keypair_file = (\<lambda>p. if p = ''?'' then Inl ''no such file'' else Inr (Keypair [] p)),
            pubkey_from_str = (\<lambda>s. if s = ''?'' then Inl ''invalid'' else Inr s)\<rparr>"

definition wallet :: "string \<Rightarrow> WalletInfo" where
  "wallet a = \<lparr>address = a, keypair_path = Some a\<rparr>"

section \<open>The status loop of the bulk tool\<close>

lemma status_loop_Absent:
  "signature_status gw sig k = Absent \<Longrightarrow>
   status_loop gw sig k result w =
     status_loop gw sig (Suc k) result (sleep poll_interval (rpc gw (GetSignatureStatus sig) w))"
  by (subst status_loop.simps) simp

lemma status_loop_QueryFailed:
  "signature_status gw sig k = QueryFailed e \<Longrightarrow>
   status_loop gw sig k result w =
     Some (LoopReturn [result\<lparr>Error := Some (StatusQueryFailed e)\<rparr>]
             (rpc gw (GetSignatureStatus sig) w))"
  by (subst status_loop.simps) simp

lemma status_loop_Confirmed:
  "signature_status gw sig k = Present None \<Longrightarrow>
   status_loop gw sig k result w =
     Some (LoopBreak (result\<lparr>Status := ''Confirmed''\<rparr>) (rpc gw (GetSignatureStatus sig) w))"
  by (subst status_loop.simps) simp

lemma status_loop_Failed:
  "signature_status gw sig k = Present (Some e) \<Longrightarrow>
   status_loop gw sig k result w =
     Some (LoopBreak (result\<lparr>Status := ''Failed'', Error := Some (TransactionFailed e)\<rparr>)
             (rpc gw (GetSignatureStatus sig) w))"
  by (subst status_loop.simps) simp

lemma polled_0: "polled gw sig 0 w = w"
  by (simp add: polled_def)

lemma polled_Suc:
  "polled gw sig n (sleep poll_interval (rpc gw (GetSignatureStatus sig) w)) = polled gw sig (Suc n) w"
  by (simp add: polled_def sleep_def rpc_def replicate_append_same)

lemma status_loop_skip:
  "(\<And>j. j < n \<Longrightarrow> signature_status gw sig (k + j) = Absent) \<Longrightarrow>
   status_loop gw sig k result w = status_loop gw sig (k + n) result (polled gw sig n w)"
proof (induction n arbitrary: k w)
  case 0
  show ?case by (simp add: polled_0)
next
  case (Suc n)
  have first: "signature_status gw sig k = Absent"
    using Suc.prems[of 0] by simp
  have later: "signature_status gw sig (Suc k + j) = Absent" if "j < n" for j
    using Suc.prems[of "Suc j"] that by simp
  show ?case
    using Suc.IH[OF later, of "sleep poll_interval (rpc gw (GetSignatureStatus sig) w)"]
    by (simp add: status_loop_Absent[OF first] polled_Suc)
qed

lemma status_loop_answered:
  assumes "status_loop gw sig k result w = Some y"
  shows "\<exists>j\<ge>k. signature_status gw sig j \<noteq> Absent"
proof (rule status_loop.raw_induct[where P = "\<lambda>gw sig k result w y. \<exists>j\<ge>k. signature_status gw sig j \<noteq> Absent", OF _ assms])
  fix loop gw sig k result w y
  assume IH: "\<And>gw sig k result w y. loop gw sig k result w = Some y \<Longrightarrow> \<exists>j\<ge>k. signature_status gw sig j \<noteq> Absent"
    and body: "(case signature_status gw sig k of
        QueryFailed e \<Rightarrow>
          Some (LoopReturn [result\<lparr>Error := Some (StatusQueryFailed e)\<rparr>]
                  (rpc gw (GetSignatureStatus sig) w))
      | Absent \<Rightarrow>
          loop gw sig (Suc k) result
            (sleep poll_interval (rpc gw (GetSignatureStatus sig) w))
      | Present None \<Rightarrow>
          Some (LoopBreak (result\<lparr>Status := ''Confirmed''\<rparr>)
                  (rpc gw (GetSignatureStatus sig) w))
      | Present (Some e) \<Rightarrow>
          Some (LoopBreak (result\<lparr>Status := ''Failed'', Error := Some (TransactionFailed e)\<rparr>)
                  (rpc gw (GetSignatureStatus sig) w))) = Some y"
  show "\<exists>j\<ge>k. signature_status gw sig j \<noteq> Absent"
  proof (cases "signature_status gw sig k = Absent")
    case True
    with body have "loop gw sig (Suc k) result (sleep poll_interval (rpc gw (GetSignatureStatus sig) w)) = Some y"
      by simp
    from IH[OF this] obtain j where "j \<ge> Suc k" "signature_status gw sig j \<noteq> Absent" by blast
    then show ?thesis by (intro exI[of _ j]) simp
  next
    case False
    then show ?thesis by blast
  qed
qed

lemma status_loop_diverges:
  "(\<And>j. k \<le> j \<Longrightarrow> signature_status gw sig j = Absent) \<Longrightarrow> status_loop gw sig k result w = None"
  using status_loop_answered[of gw sig k result w] by (cases "status_loop gw sig k result w") auto

lemma status_loop_exit:
  assumes "status_loop gw sig k result w = Some y"
  shows "(\<exists>e w'. y = LoopReturn [result\<lparr>Error := Some (StatusQueryFailed e)\<rparr>] w') \<or>
         (\<exists>w'. y = LoopBreak (result\<lparr>Status := ''Confirmed''\<rparr>) w') \<or>
         (\<exists>e w'. y = LoopBreak (result\<lparr>Status := ''Failed'', Error := Some (TransactionFailed e)\<rparr>) w')"
  by (rule status_loop.raw_induct[where P = "\<lambda>gw sig k result w y.
         (\<exists>e w'. y = LoopReturn [result\<lparr>Error := Some (StatusQueryFailed e)\<rparr>] w') \<or>
         (\<exists>w'. y = LoopBreak (result\<lparr>Status := ''Confirmed''\<rparr>) w') \<or>
         (\<exists>e w'. y = LoopBreak (result\<lparr>Status := ''Failed'', Error := Some (TransactionFailed e)\<rparr>) w')", OF _ assms])
     (auto split: status_reply.splits option.splits)

lemma status_loop_terminates:
  assumes "signature_status gw sig j \<noteq> Absent" "k \<le> j"
  shows "\<exists>y. status_loop gw sig k result w = Some y"
proof -
  define m where "m = (LEAST i. signature_status gw sig (k + i) \<noteq> Absent)"
  have ex: "signature_status gw sig (k + (j - k)) \<noteq> Absent" using assms by simp
  have m: "signature_status gw sig (k + m) \<noteq> Absent"
    unfolding m_def by (rule LeastI[of "\<lambda>i. signature_status gw sig (k + i) \<noteq> Absent", OF ex])
  have before: "signature_status gw sig (k + i) = Absent" if "i < m" for i
    using not_less_Least[of i "\<lambda>i. signature_status gw sig (k + i) \<noteq> Absent"] that
    unfolding m_def by blast
  have "status_loop gw sig k result w = status_loop gw sig (k + m) result (polled gw sig m w)"
    by (rule status_loop_skip) (rule before)
  moreover have "\<exists>y. status_loop gw sig (k + m) result (polled gw sig m w) = Some y"
    using m by (subst status_loop.simps) (simp split: status_reply.splits option.splits)
  ultimately show ?thesis by simp
qed

lemma executeTransfer_sends_one:
  "executeTransfer lib gw t w = Some (Inr rs, w') \<Longrightarrow> length rs = 1"
  by (auto simp: executeTransfer_def Let_def
           split: sum.splits option.splits loop_exit.splits dest!: status_loop_exit)


lemma executeTransfer_status:
  "executeTransfer lib gw t w = Some (Inr rs, w') \<Longrightarrow> r \<in> set rs \<Longrightarrow>
   (Error r = None \<longleftrightarrow> Status r = ''Confirmed'') \<and>
   (Status r = ''Confirmed'' \<or> Status r = ''Failed'' \<or> Status r = '''')"
  by (auto simp: executeTransfer_def Let_def
           split: sum.splits option.splits loop_exit.splits dest!: status_loop_exit)

lemma executeTransfer_panics:
  "decode_string lib (FromPrivateKey t) = Inr bytes \<Longrightarrow> public_key lib bytes = Inl msg \<Longrightarrow>
   executeTransfer lib gw t w = Some (Inl (LibraryPanic msg), w)"
  by (simp add: executeTransfer_def)

lemma executeTransfer_returns:
  assumes "\<And>sig. \<exists>k. signature_status gw sig k \<noteq> Absent"
  shows "\<exists>y. executeTransfer lib gw t w = Some y"
proof -
  have loop: "status_loop gw sig 0 result w2 \<noteq> None" for sig result w2
    using assms[of sig] status_loop_terminates[of gw sig _ 0 result w2] by auto
  show ?thesis
    unfolding executeTransfer_def Let_def
    by (auto simp: loop split: sum.splits option.splits loop_exit.splits)
qed

text \<open>
  The bulk worker on the stand-in library and a network that confirms at the
  third status query.
\<close>

lemma executeTransfer_confirmed_run:
  "executeTransfer lib0 gw_ok transfer0 w0 =
     Some (Inr [\<lparr>FromAccount = ''PUB'', ToAccount = ''DEST'', ResultAmount = 5, Signature = ''SIG'',
                  Status = ''Confirmed'', ProcessingTime = 1000000035, Error = None\<rparr>],
           \<lparr>clock = 1000001035,
            calls = [GetRecentBlockhash,
                     SendTransaction \<lparr>instructions = [Transfer 5 ''PUB'' ''DEST''],
                                      blockhash = ''HASH'', payer = ''PUB'', signers = [''PUB'']\<rparr>,
                     GetSignatureStatus ''SIG'', GetSignatureStatus ''SIG'',
                     GetSignatureStatus ''SIG'']\<rparr>)"
proof -
  have gw: "recent_blockhash gw_ok = Inr ''HASH''" "send_transaction gw_ok tx = Inr ''SIG''"
    "signature_status gw_ok sig 0 = Absent" "signature_status gw_ok sig (Suc 0) = Absent"
    "signature_status gw_ok sig (Suc (Suc 0)) = Present None" "rpc_latency gw_ok = 7" for tx sig
    by (simp_all add: gw_ok_def)
  show ?thesis
    by (simp add: executeTransfer_def Let_def lib0_def transfer0_def w0_def gw
          status_loop_Absent status_loop_Confirmed rpc_def sleep_def poll_interval_def)
qed

lemma executeTransfer_rejected_run:
  "executeTransfer lib0 gw_rejecting transfer0 w0 =
     Some (Inr [\<lparr>FromAccount = ''PUB'', ToAccount = ''DEST'', ResultAmount = 5, Signature = ''SIG'',
                  Status = ''Failed'', ProcessingTime = 21,
                  Error = Some (TransactionFailed ''insufficient funds'')\<rparr>],
           \<lparr>clock = 1021,
            calls = [GetRecentBlockhash,
                     SendTransaction \<lparr>instructions = [Transfer 5 ''PUB'' ''DEST''],
                                      blockhash = ''HASH'', payer = ''PUB'', signers = [''PUB'']\<rparr>,
                     GetSignatureStatus ''SIG'']\<rparr>)"
proof -
  have rgw: "signature_status gw_rejecting sig 0 = Present (Some ''insufficient funds'')"
    "recent_blockhash gw_rejecting = Inr ''HASH''" "send_transaction gw_rejecting tx = Inr ''SIG''"
    "rpc_latency gw_rejecting = 7" for sig tx
    by (simp_all add: gw_rejecting_def)
  show ?thesis
    by (simp add: executeTransfer_def Let_def lib0_def transfer0_def w0_def rgw
          status_loop_Failed rpc_def)
qed

section \<open>The channel and the statistics of the bulk tool\<close>

lemma length_concat_singletons:
  "(\<And>xs. xs \<in> set xss \<Longrightarrow> length xs = 1) \<Longrightarrow> length (concat xss) = length xss"
  by (induction xss) auto

lemma run_workers_nth:
  "i < length transfers \<Longrightarrow>
   run_workers lib gws transfers w ! i = executeTransfer lib (gws i) (transfers ! i) w"
  by (simp add: run_workers_def nth_enumerate_eq)

lemma length_run_workers: "length (run_workers lib gws transfers w) = length transfers"
  by (simp add: run_workers_def)

lemma gather_member:
  "gather ends = Some (Inr results) \<Longrightarrow> r \<in> set results \<Longrightarrow>
   \<exists>sent w. Some (Inr sent, w) \<in> set ends \<and> r \<in> set sent"
proof (induction ends arbitrary: results rule: gather.induct)
  case (3 sent w ends)
  from "3.prems"(1) obtain rest where
    rest: "gather ends = Some (Inr rest)" "results = sent @ rest"
    by (auto split: option.splits sum.splits)
  show ?case
  proof (cases "r \<in> set sent")
    case True
    then show ?thesis by auto
  next
    case False
    with "3.prems"(2) rest have "r \<in> set rest" by simp
    from "3.IH"[OF rest(1) this] show ?thesis by auto
  qed
qed (auto split: option.splits sum.splits)

lemma gather_length:
  "gather ends = Some (Inr results) \<Longrightarrow>
   (\<And>sent w. Some (Inr sent, w) \<in> set ends \<Longrightarrow> length sent = 1) \<Longrightarrow>
   length results = length ends"
proof (induction ends arbitrary: results rule: gather.induct)
  case (3 sent w ends)
  from "3.prems"(1) obtain rest where
    rest: "gather ends = Some (Inr rest)" "results = sent @ rest"
    by (auto split: option.splits sum.splits)
  have "length sent = 1" using "3.prems"(2)[of sent w] by simp
  moreover have "length rest = length ends"
  proof (rule "3.IH"[OF rest(1)])
    fix sent' w'
    assume "Some (Inr sent', w') \<in> set ends"
    then show "length sent' = 1" using "3.prems"(2)[of sent' w'] by simp
  qed
  ultimately show ?case using rest(2) by simp
qed (auto split: option.splits sum.splits)

lemma gather_None: "gather ends = None \<Longrightarrow> None \<in> set ends"
  by (induction ends rule: gather.induct) (auto split: option.splits sum.splits)

lemma gather_panic:
  "gather ends = Some (Inl p) \<Longrightarrow> \<exists>w. Some (Inl p, w) \<in> set ends"
  by (induction ends rule: gather.induct) (auto split: option.splits sum.splits)

lemma received_worker:
  assumes "received lib gws transfers w = Some (Inr rs)" "r \<in> set rs"
  shows "\<exists>i rs' w'. i < length transfers \<and> r \<in> set rs' \<and>
           executeTransfer lib (gws i) (transfers ! i) w = Some (Inr rs', w')"
proof -
  from gather_member[OF assms(1)[unfolded received_def] assms(2)] obtain rs' w' where
    x: "Some (Inr rs', w') \<in> set (run_workers lib gws transfers w)" "r \<in> set rs'"
    by blast
  then obtain i where i: "i < length transfers" "run_workers lib gws transfers w ! i = Some (Inr rs', w')"
    by (auto simp: in_set_conv_nth length_run_workers)
  then have "executeTransfer lib (gws i) (transfers ! i) w = Some (Inr rs', w')"
    by (simp add: run_workers_nth)
  with x(2) i(1) show ?thesis by blast
qed

lemma received_length:
  assumes "received lib gws transfers w = Some (Inr rs)"
  shows "length rs = length transfers"
proof -
  have one: "length sent = 1" if "Some (Inr sent, w') \<in> set (run_workers lib gws transfers w)" for sent w'
  proof -
    from that obtain i where "i < length transfers"
      "run_workers lib gws transfers w ! i = Some (Inr sent, w')"
      by (auto simp: in_set_conv_nth length_run_workers)
    then have "executeTransfer lib (gws i) (transfers ! i) w = Some (Inr sent, w')"
      by (simp add: run_workers_nth)
    then show ?thesis by (rule executeTransfer_sends_one)
  qed
  have "length rs = length (run_workers lib gws transfers w)"
    using assms one unfolding received_def by (rule gather_length)
  then show ?thesis by (simp add: length_run_workers)
qed

lemma received_returns:
  assumes "\<And>i sig. i < length transfers \<Longrightarrow> \<exists>k. signature_status (gws i) sig k \<noteq> Absent"
  shows "\<exists>y. received lib gws transfers w = Some y"
proof (cases "received lib gws transfers w")
  case None
  then have "None \<in> set (run_workers lib gws transfers w)"
    unfolding received_def by (rule gather_None)
  then obtain i where "i < length transfers" "run_workers lib gws transfers w ! i = None"
    by (auto simp: in_set_conv_nth length_run_workers)
  then have "i < length transfers" "executeTransfer lib (gws i) (transfers ! i) w = None"
    by (simp_all add: run_workers_nth)
  then show ?thesis
    using executeTransfer_returns[of "gws i" lib "transfers ! i" w] assms[of i] by auto
next
  case (Some y)
  then show ?thesis by blast
qed

lemma failCount_foldl:
  "failCount (foldl collect st rs) = failCount st + length (filter (\<lambda>r. Error r \<noteq> None) rs)"
  by (induction rs arbitrary: st) (simp_all add: collect_def Let_def)

lemma successCount_foldl:
  "successCount (foldl collect st rs) = successCount st + length (filter (\<lambda>r. Error r = None) rs)"
  by (induction rs arbitrary: st) (simp_all add: collect_def Let_def)

lemma allResults_foldl: "allResults (foldl collect st rs) = allResults st @ rs"
  by (induction rs arbitrary: st) (simp_all add: collect_def Let_def)

lemma report_exit_code:
  "n \<noteq> 0 \<Longrightarrow>
   go_exit_code (report n rs) = (if \<exists>r\<in>set rs. Error r \<noteq> None then 1 else 0)"
  by (auto simp: report_def go_exit_code_def Let_def failCount_foldl no_statistics_def
        filter_empty_conv)

section \<open>The confirmation loop and the tasks of the multi-wallet CLI\<close>

lemma confirmation_loop_absent:
  "(\<And>j. j < n \<Longrightarrow> signature_status gw sig (k + j) = Absent) \<Longrightarrow>
   confirmation_loop gw sig n k w = (Inr False, polled gw sig n w)"
proof (induction n arbitrary: k w)
  case 0
  show ?case by (simp add: polled_0)
next
  case (Suc n)
  have first: "signature_status gw sig k = Absent"
    using Suc.prems[of 0] by simp
  have later: "signature_status gw sig (Suc k + j) = Absent" if "j < n" for j
    using Suc.prems[of "Suc j"] that by simp
  show ?case
    using Suc.IH[OF later, of "sleep poll_interval (rpc gw (GetSignatureStatus sig) w)"]
    by (simp add: first polled_Suc)
qed

lemma transfer_task_addresses:
  "from_address (transfer_task lib gw path f t amount w) = f"
  "to_address (transfer_task lib gw path f t amount w) = t"
  by (simp_all add: transfer_task_def split: sum.splits prod.splits)

lemma transfer_tasks_paired:
  "tos \<noteq> [] \<Longrightarrow>
   transfer_tasks lib gws tos amount w xs =
     Inr (map (\<lambda>(i, f). transfer_task lib (gws i) (the (keypair_path f)) (address f)
                 (address (if i < length tos then tos ! i else tos ! 0)) amount w)
            (filter (\<lambda>(i, f). keypair_path f \<noteq> None) xs))"
  by (induction xs) (auto simp: index_def split: option.splits)

lemma transfer_tasks_no_destination:
  "xs \<noteq> [] \<Longrightarrow> transfer_tasks lib gws [] amount w xs = Inl (IndexOutOfBounds 0 0)"
  by (cases xs) (auto simp: index_def)

section \<open>The retry budget\<close>

lemma execute_single_transfer_timeout:
  assumes "read_keypair_file lib path = Inr kp"
    and "pubkey_from_str lib from_str = Inr (pubkey kp)"
    and "pubkey_from_str lib to_str = Inr to_pk"
    and "recent_blockhash gw = Inr recent"
    and "send_transaction gw
           \<lparr>instructions = [Transfer amount (pubkey kp) to_pk], blockhash = recent,
            payer = pubkey kp, signers = [pubkey kp]\<rparr> = Inr sig"
    and "\<And>k. k < max_retries \<Longrightarrow> signature_status gw sig k = Absent"
  shows "execute_single_transfer lib gw path from_str to_str amount w =
           (Inl ConfirmationTimedOut,
            polled gw sig max_retries
              (rpc gw (SendTransaction
                         \<lparr>instructions = [Transfer amount (pubkey kp) to_pk], blockhash = recent,
                          payer = pubkey kp, signers = [pubkey kp]\<rparr>)
                 (rpc gw GetRecentBlockhash w)))"
proof -
  have loop: "confirmation_loop gw sig max_retries 0 w2 = (Inr False, polled gw sig max_retries w2)" for w2
    using confirmation_loop_absent[of max_retries gw sig 0 w2] assms(6) by simp
  show ?thesis
    by (simp add: execute_single_transfer_def Let_def assms(1-5) loop)
qed

text \<open>
  C1 (as amended). Let a transfer be submitted with signature \<open>sig\<close> and let
  every status query for \<open>sig\<close> find the status absent. In the multi-wallet CLI
  \<^verbatim>\<open>execute_single_transfer\<close> then ends with the error "Transaction
  confirmation timed out" after exactly 20 status queries (and 20 sleeps of
  one poll interval). The status loop of the bulk tool's \<^verbatim>\<open>executeTransfer\<close>
  has no retry budget: on the same replies it never ends.
\<close>

theorem absent_status_times_out_only_in_cli:
  assumes "read_keypair_file lib path = Inr kp"
    and "pubkey_from_str lib from_str = Inr (pubkey kp)"
    and "pubkey_from_str lib to_str = Inr to_pk"
    and "recent_blockhash gw = Inr recent"
    and "send_transaction gw
           \<lparr>instructions = [Transfer amount (pubkey kp) to_pk], blockhash = recent,
            payer = pubkey kp, signers = [pubkey kp]\<rparr> = Inr sig"
    and "\<And>k. signature_status gw sig k = Absent"
  shows "fst (execute_single_transfer lib gw path from_str to_str amount w) = Inl ConfirmationTimedOut \<and>
         calls (snd (execute_single_transfer lib gw path from_str to_str amount w)) =
           calls w @ [GetRecentBlockhash,
                      SendTransaction
                        \<lparr>instructions = [Transfer amount (pubkey kp) to_pk], blockhash = recent,
                         payer = pubkey kp, signers = [pubkey kp]\<rparr>]
                   @ replicate 20 (GetSignatureStatus sig) \<and>
         clock (snd (execute_single_transfer lib gw path from_str to_str amount w)) =
           clock w + 2 * rpc_latency gw + 20 * (rpc_latency gw + poll_interval) \<and>
         status_loop gw sig 0 result w = None"
proof -
  have "execute_single_transfer lib gw path from_str to_str amount w =
           (Inl ConfirmationTimedOut,
            polled gw sig max_retries
              (rpc gw (SendTransaction
                         \<lparr>instructions = [Transfer amount (pubkey kp) to_pk], blockhash = recent,
                          payer = pubkey kp, signers = [pubkey kp]\<rparr>)
                 (rpc gw GetRecentBlockhash w)))"
    by (rule execute_single_transfer_timeout) (simp_all add: assms)
  moreover have "status_loop gw sig 0 result w = None"
    by (rule status_loop_diverges) (rule assms(6))
  ultimately show ?thesis
    by (simp add: polled_def rpc_def max_retries_def)
qed

theorem absent_status_times_out_only_in_cli_witness:
  "read_keypair_file rlib0 ''A'' = Inr (Keypair [] ''A'') \<and>
   pubkey_from_str rlib0 ''A'' = Inr ''A'' \<and>
   pubkey_from_str rlib0 ''B'' = Inr ''B'' \<and>
   recent_blockhash gw_absent = Inr ''HASH'' \<and>
   send_transaction gw_absent
     \<lparr>instructions = [Transfer 5 ''A'' ''B''], blockhash = ''HASH'',
      payer = ''A'', signers = [''A'']\<rparr> = Inr ''SIG'' \<and>
   (\<forall>k. signature_status gw_absent ''SIG'' k = Absent) \<and>
   fst (execute_single_transfer rlib0 gw_absent ''A'' ''A'' ''B'' 5 w0) = Inl ConfirmationTimedOut \<and>
   calls (snd (execute_single_transfer rlib0 gw_absent ''A'' ''A'' ''B'' 5 w0)) =
     [GetRecentBlockhash,
      SendTransaction \<lparr>instructions = [Transfer 5 ''A'' ''B''], blockhash = ''HASH'',
                       payer = ''A'', signers = [''A'']\<rparr>]
     @ replicate 20 (GetSignatureStatus ''SIG'') \<and>
   clock (snd (execute_single_transfer rlib0 gw_absent ''A'' ''A'' ''B'' 5 w0)) = 10000001154 \<and>
   status_loop gw_absent ''SIG'' 0
     \<lparr>FromAccount = '''', ToAccount = '''', ResultAmount = 5, Signature = ''SIG'', Status = '''',
      ProcessingTime = 0, Error = None\<rparr> w0 = None"
proof -
  have h1: "read_keypair_file rlib0 ''A'' = Inr (Keypair [] ''A'')"
    and h2: "pubkey_from_str rlib0 ''A'' = Inr (pubkey (Keypair [] ''A''))"
    and h3: "pubkey_from_str rlib0 ''B'' = Inr ''B''"
    by (simp_all add: rlib0_def)
  have h4: "recent_blockhash gw_absent = Inr ''HASH''"
    and h5: "send_transaction gw_absent
      \<lparr>instructions = [Transfer 5 (pubkey (Keypair [] ''A'')) ''B''], blockhash = ''HASH'',
       payer = pubkey (Keypair [] ''A''), signers = [pubkey (Keypair [] ''A'')]\<rparr> = Inr ''SIG''"
    and h6: "\<And>k. signature_status gw_absent ''SIG'' k = Absent"
    by (simp_all add: gw_absent_def)
  have lat: "rpc_latency gw_absent = 7" by (simp add: gw_absent_def)
  show ?thesis
    using h1 h2 h3 h4 h5 h6
      absent_status_times_out_only_in_cli[OF h1 h2 h3 h4 h5 h6, where w = w0 and result =
        "\<lparr>FromAccount = '''', ToAccount = '''', ResultAmount = 5, Signature = ''SIG'', Status = '''',
          ProcessingTime = 0, Error = None\<rparr>"]
    by (simp add: lat w0_def poll_interval_def)
qed

text \<open>
  The bulk worker on a network that never shows the status: it submits the
  transaction and then polls for ever; there is no twentieth and last attempt.
\<close>

theorem bulk_status_loop_never_times_out:
  "executeTransfer lib0 gw_absent transfer0 w0 = None"
proof -
  have loop: "status_loop gw_absent ''SIG'' 0 result w = None" for result w
    by (rule status_loop_diverges) (simp add: gw_absent_def)
  have gw: "recent_blockhash gw_absent = Inr ''HASH''" "send_transaction gw_absent tx = Inr ''SIG''" for tx
    by (simp_all add: gw_absent_def)
  show ?thesis
    by (simp add: executeTransfer_def Let_def lib0_def transfer0_def gw loop)
qed

section \<open>The empty batch\<close>

text \<open>
  C2. With no transfers configured, \<^verbatim>\<open>main\<close> of the bulk tool receives
  nothing on the channel and then divides the total processing time by
  \<^verbatim>\<open>len(config.Transfers)\<close>, which is 0: the process panics (exit status 2)
  instead of printing a report. \<^verbatim>\<open>main\<close> of the multi-wallet CLI guards its
  average with \<^verbatim>\<open>!results.is_empty()\<close> and prints zero counts and no average.
\<close>

theorem empty_batch_divides_by_zero:
  "main_go lib gws [] w = Some (Inl IntegerDivideByZero) \<and>
   go_exit_code (Inl IntegerDivideByZero) = 2 \<and>
   main_rs rlib rgws \<lparr>from_wallets = [], to_wallets = tos\<rparr> amount w' =
     Inr \<lparr>total_transfers = 0, successful_transfers = 0, failed_transfers = 0, avg_time = None\<rparr>"
  by (simp add: main_go_def received_def run_workers_def report_def go_exit_code_def
        main_rs_def execute_transfers_def summarize_def)

section \<open>Pairing sources with destinations\<close>

lemma length_filter_enumerate:
  "length (filter (\<lambda>(i, f). P f) (enumerate n xs)) = length (filter P xs)"
  by (induction xs arbitrary: n) auto

lemma execute_transfers_paired:
  assumes "to_wallets config \<noteq> []"
  shows "execute_transfers lib gws config amount w =
     Inr (map (\<lambda>(i, f). transfer_task lib (gws i) (the (keypair_path f)) (address f)
                 (address (if i < length (to_wallets config) then to_wallets config ! i
                           else to_wallets config ! 0)) amount w)
            (filter (\<lambda>(i, f). keypair_path f \<noteq> None) (enumerate 0 (from_wallets config))))"
  unfolding execute_transfers_def by (rule transfer_tasks_paired) (rule assms)

text \<open>
  C10. With at least one source wallet and no destination wallet,
  \<^verbatim>\<open>execute_transfers\<close> returns no results and no error value: the first pass
  of its loop takes the fallback branch and indexes element 0 of the empty
  destination list, which panics; the process ends with the panic's status.
\<close>

theorem empty_destinations_index_out_of_bounds:
  assumes "from_wallets config \<noteq> []" and "to_wallets config = []"
  shows "execute_transfers lib gws config amount w = Inl (IndexOutOfBounds 0 0) \<and>
         main_rs lib gws config amount w = Inl (IndexOutOfBounds 0 0) \<and>
         rs_exit_code (main_rs lib gws config amount w) = 101"
proof -
  have "enumerate 0 (from_wallets config) \<noteq> []"
    using assms(1) by (cases "from_wallets config") simp_all
  then have "execute_transfers lib gws config amount w = Inl (IndexOutOfBounds 0 0)"
    unfolding execute_transfers_def assms(2) by (rule transfer_tasks_no_destination)
  then show ?thesis by (simp add: main_rs_def rs_exit_code_def)
qed

theorem empty_destinations_index_out_of_bounds_witness:
  "from_wallets \<lparr>from_wallets = [wallet ''A''], to_wallets = []\<rparr> \<noteq> [] \<and>
   to_wallets \<lparr>from_wallets = [wallet ''A''], to_wallets = []\<rparr> = [] \<and>
   execute_transfers rlib0 (\<lambda>i. gw_ok) \<lparr>from_wallets = [wallet ''A''], to_wallets = []\<rparr> 5 w0 =
     Inl (IndexOutOfBounds 0 0) \<and>
   rs_exit_code (main_rs rlib0 (\<lambda>i. gw_ok) \<lparr>from_wallets = [wallet ''A''], to_wallets = []\<rparr> 5 w0) = 101"
  using empty_destinations_index_out_of_bounds
          [of "\<lparr>from_wallets = [wallet ''A''], to_wallets = []\<rparr>" rlib0 "\<lambda>i. gw_ok" 5 w0]
  by (simp add: rs_exit_code_def)

text \<open>
  C8 (as amended). When the destination list is not empty,
  \<^verbatim>\<open>execute_transfers\<close> returns one result per source wallet that has a keypair
  path, in source order, and the result of the source at index \<open>i\<close> names
  destination \<open>i\<close> when \<open>i\<close> is within the destination list and the first
  destination otherwise. With a single destination every result names it; three
  sources with keypair paths and one destination give three results naming it.
\<close>

theorem sources_pair_with_destinations:
  assumes "to_wallets config \<noteq> []"
  shows "\<exists>results. execute_transfers lib gws config amount w = Inr results \<and>
           map (\<lambda>r. (from_address r, to_address r)) results =
             map (\<lambda>(i, f). (address f,
                    address (if i < length (to_wallets config) then to_wallets config ! i
                             else hd (to_wallets config))))
               (filter (\<lambda>(i, f). keypair_path f \<noteq> None) (enumerate 0 (from_wallets config))) \<and>
           (length (to_wallets config) = 1 \<longrightarrow>
              (\<forall>r\<in>set results. to_address r = address (hd (to_wallets config))))"
proof -
  let ?tos = "to_wallets config"
  let ?results = "map (\<lambda>(i, f). transfer_task lib (gws i) (the (keypair_path f)) (address f)
                 (address (if i < length ?tos then ?tos ! i else ?tos ! 0)) amount w)
            (filter (\<lambda>(i, f). keypair_path f \<noteq> None) (enumerate 0 (from_wallets config)))"
  have run: "execute_transfers lib gws config amount w = Inr ?results"
    by (rule execute_transfers_paired) (rule assms)
  have hd0: "?tos ! 0 = hd ?tos"
    using assms by (simp add: hd_conv_nth)
  have pairs: "map (\<lambda>r. (from_address r, to_address r)) ?results =
             map (\<lambda>(i, f). (address f, address (if i < length ?tos then ?tos ! i else hd ?tos)))
               (filter (\<lambda>(i, f). keypair_path f \<noteq> None) (enumerate 0 (from_wallets config)))"
    by (simp add: transfer_task_addresses hd0 split_def comp_def)
  have single: "length ?tos = 1 \<Longrightarrow> \<forall>r\<in>set ?results. to_address r = address (hd ?tos)"
    using hd0 by (auto simp: transfer_task_addresses)
  show ?thesis
    using run pairs single by blast
qed

text \<open>
  Two inputs outside the amended claim. Three sources and no destination: the
  source at index 0 is beyond the destination list and there is no first
  destination to pair it with. Three sources, the second without a keypair
  path, and one destination: there are two results, not three.
\<close>

theorem no_destination_no_pairing:
  "execute_transfers rlib0 (\<lambda>i. gw_ok)
     \<lparr>from_wallets = [wallet ''A'', wallet ''B'', wallet ''C''], to_wallets = []\<rparr> 5 w0 =
   Inl (IndexOutOfBounds 0 0) \<and>
   map_sum id (map (\<lambda>r. (from_address r, to_address r)))
     (execute_transfers rlib0 (\<lambda>i. gw_ok)
        \<lparr>from_wallets = [wallet ''A'', \<lparr>address = ''B'', keypair_path = None\<rparr>, wallet ''C''],
         to_wallets = [wallet ''D'']\<rparr> 5 w0) =
   Inr [(''A'', ''D''), (''C'', ''D'')]"
  by (simp add: execute_transfers_def index_def wallet_def transfer_task_addresses
        enumerate_eq_zip upt_rec)

theorem sources_pair_with_destinations_witness:
  "to_wallets \<lparr>from_wallets = [wallet ''A'', wallet ''B'', wallet ''C''], to_wallets = [wallet ''D'']\<rparr> \<noteq> [] \<and>
   (\<exists>results. execute_transfers rlib0 (\<lambda>i. gw_ok)
        \<lparr>from_wallets = [wallet ''A'', wallet ''B'', wallet ''C''], to_wallets = [wallet ''D'']\<rparr> 5 w0 =
        Inr results \<and>
      map (\<lambda>r. (from_address r, to_address r)) results =
        [(''A'', ''D''), (''B'', ''D''), (''C'', ''D'')])"
proof -
  let ?config = "\<lparr>from_wallets = [wallet ''A'', wallet ''B'', wallet ''C''], to_wallets = [wallet ''D'']\<rparr>"
  have some: "to_wallets ?config \<noteq> []" by simp
  have eq: "map (\<lambda>(i, f). (address f,
                    address (if i < length (to_wallets ?config) then to_wallets ?config ! i
                             else hd (to_wallets ?config))))
               (filter (\<lambda>(i, f). keypair_path f \<noteq> None) (enumerate 0 (from_wallets ?config)))
            = [(''A'', ''D''), (''B'', ''D''), (''C'', ''D'')]"
    by (simp add: wallet_def enumerate_eq_zip upt_rec)
  show ?thesis
    using sources_pair_with_destinations[OF some, of rlib0 "\<lambda>i. gw_ok" 5 w0]
    unfolding eq
    by (intro conjI some) (elim exE conjE, intro exI conjI, assumption+)
qed

section \<open>Elapsed time\<close>



lemma confirmation_loop_Failed:
  "0 < n \<Longrightarrow> signature_status gw sig k = Present (Some e) \<Longrightarrow>
   confirmation_loop gw sig n k w = (Inl (FailedStatus e), rpc gw (GetSignatureStatus sig) w)"
  by (cases n) simp_all






section \<open>The exit status\<close>

lemma received_confirmed_iff:
  assumes "received lib gws transfers w = Some (Inr rs)" "r \<in> set rs"
  shows "Error r = None \<longleftrightarrow> Status r = ''Confirmed''"
proof -
  from received_worker[OF assms] obtain i rs' w' where
    "r \<in> set rs'" "executeTransfer lib (gws i) (transfers ! i) w = Some (Inr rs', w')"
    by blast
  then show ?thesis using executeTransfer_status[of lib "gws i" "transfers ! i" w rs' w' r] by blast
qed

lemma is_char_boundary_ascii:
  "ascii s \<Longrightarrow> i \<le> length s \<Longrightarrow> is_char_boundary s i"
  by (auto simp: is_char_boundary_def ascii_def list_all_length)

lemma shorten_address_ascii:
  "ascii s \<Longrightarrow> \<exists>short. shorten_address s = Inr short"
  by (simp add: shorten_address_def is_char_boundary_ascii)

text \<open>
  An address of eleven bytes whose fifth and sixth bytes are one two-byte
  character (\<open>0xC3 0xA9\<close>): the cut at byte 5 is inside it.
\<close>

lemma shorten_address_inside_character:
  "shorten_address (''abcd'' @ [CHR 0xC3, CHR 0xA9] @ ''efghi'') = Inl (ByteIndexNotCharBoundary 5)"
  by (simp add: shorten_address_def is_char_boundary_def)

lemma print_results_ascii:
  "(\<And>r. r \<in> set results \<Longrightarrow> ascii (from_address r) \<and> ascii (to_address r)) \<Longrightarrow>
   \<exists>rows. print_results results = Inr rows"
proof (induction results)
  case Nil
  show ?case by simp
next
  case (Cons r results)
  from Cons.prems[of r] obtain a b where
    "shorten_address (from_address r) = Inr a" "shorten_address (to_address r) = Inr b"
    using shorten_address_ascii by (meson list.set_intros(1))
  moreover from Cons.IH Cons.prems obtain rows where "print_results results = Inr rows"
    by (meson list.set_intros(2))
  ultimately show ?case by simp
qed

lemma main_rs_prints_ascii:
  assumes "to_wallets config \<noteq> []"
    and "\<forall>wl\<in>set (from_wallets config @ to_wallets config). ascii (address wl)"
  shows "rs_exit_code (main_rs lib gws config amount w) = 0"
proof -
  let ?tos = "to_wallets config"
  let ?results = "map (\<lambda>(i, f). transfer_task lib (gws i) (the (keypair_path f)) (address f)
                 (address (if i < length ?tos then ?tos ! i else ?tos ! 0)) amount w)
            (filter (\<lambda>(i, f). keypair_path f \<noteq> None) (enumerate 0 (from_wallets config)))"
  have run: "execute_transfers lib gws config amount w = Inr ?results"
    by (rule execute_transfers_paired) (rule assms(1))
  have dest: "ascii (address (if i < length ?tos then ?tos ! i else ?tos ! 0))" for i
    using assms by (auto simp: nth_mem)
  have src: "ascii (address f)" if "(i, f) \<in> set (enumerate 0 (from_wallets config))" for i f
    using that assms(2) by (auto simp: in_set_enumerate_eq)
  have "ascii (from_address r) \<and> ascii (to_address r)" if "r \<in> set ?results" for r
    using that dest src by (auto simp: transfer_task_addresses)
  then obtain rows where "print_results ?results = Inr rows"
    using print_results_ascii[of ?results] by blast
  with run show ?thesis by (simp add: main_rs_def rs_exit_code_def)
qed

text \<open>
  C7 (as amended). In the bulk tool with at least one transfer, once every
  worker has returned (none has panicked), the process exits with status 0
  when every result is "Confirmed" and with status 1 otherwise, in whatever
  order the channel delivered the results. The multi-wallet CLI has no such
  rule: whenever its destination list is not empty and the configured
  addresses are ASCII text, \<^verbatim>\<open>main\<close> prints the rows and the summary, returns
  \<^verbatim>\<open>Ok(())\<close> and the process exits with status 0, whatever the results.
\<close>

theorem exit_status_of_the_two_tools:
  assumes "received lib gws transfers w = Some (Inr results)"
    and "transfers \<noteq> []"
    and "mset arrived = mset results"
    and "to_wallets config \<noteq> []"
    and "\<forall>wl\<in>set (from_wallets config @ to_wallets config). ascii (address wl)"
  shows "main_go lib gws transfers w = Some (report (length transfers) results) \<and>
         go_exit_code (report (length transfers) arrived) =
           (if \<forall>r\<in>set results. Status r = ''Confirmed'' then 0 else 1) \<and>
         rs_exit_code (main_rs rlib rgws config amount rw) = 0"
proof -
  have main: "main_go lib gws transfers w = Some (report (length transfers) results)"
    by (simp add: main_go_def assms(1))
  have same: "set arrived = set results"
    using assms(3) by (rule mset_eq_setD)
  have "(Error r \<noteq> None) = (Status r \<noteq> ''Confirmed'')" if "r \<in> set results" for r
    using received_confirmed_iff[OF assms(1) that] by simp
  then have "(\<exists>r\<in>set results. Error r \<noteq> None) \<longleftrightarrow> (\<exists>r\<in>set results. Status r \<noteq> ''Confirmed'')"
    by (intro bex_cong refl)
  then have code: "go_exit_code (report (length transfers) arrived) =
           (if \<forall>r\<in>set results. Status r = ''Confirmed'' then 0 else 1)"
    using assms(2) by (simp add: report_exit_code same)
  have "rs_exit_code (main_rs rlib rgws config amount rw) = 0"
    by (rule main_rs_prints_ascii) (rule assms(4), rule assms(5))
  with main code show ?thesis by blast
qed

theorem exit_status_of_the_two_tools_witness:
  "received lib0 (\<lambda>i. if i = 0 then gw_ok else gw_rejecting) [transfer0, transfer0] w0 =
     Some (Inr [\<lparr>FromAccount = ''PUB'', ToAccount = ''DEST'', ResultAmount = 5, Signature = ''SIG'',
                  Status = ''Confirmed'', ProcessingTime = 1000000035, Error = None\<rparr>,
                \<lparr>FromAccount = ''PUB'', ToAccount = ''DEST'', ResultAmount = 5, Signature = ''SIG'',
                  Status = ''Failed'', ProcessingTime = 21,
                  Error = Some (TransactionFailed ''insufficient funds'')\<rparr>]) \<and>
   [transfer0, transfer0] \<noteq> [] \<and>
   to_wallets \<lparr>from_wallets = [wallet ''A''], to_wallets = [wallet ''D'']\<rparr> \<noteq> [] \<and>
   ascii ''A'' \<and> ascii ''D'' \<and>
   go_exit_code (report 2
     [\<lparr>FromAccount = ''PUB'', ToAccount = ''DEST'', ResultAmount = 5, Signature = ''SIG'',
        Status = ''Failed'', ProcessingTime = 21,
        Error = Some (TransactionFailed ''insufficient funds'')\<rparr>,
      \<lparr>FromAccount = ''PUB'', ToAccount = ''DEST'', ResultAmount = 5, Signature = ''SIG'',
        Status = ''Confirmed'', ProcessingTime = 1000000035, Error = None\<rparr>]) = 1 \<and>
   rs_exit_code (main_rs rlib0 (\<lambda>i. gw_ok)
     \<lparr>from_wallets = [wallet ''A''], to_wallets = [wallet ''D'']\<rparr> 5 w0) = 0"
proof -
  let ?good = "\<lparr>FromAccount = ''PUB'', ToAccount = ''DEST'', ResultAmount = 5, Signature = ''SIG'',
             Status = ''Confirmed'', ProcessingTime = 1000000035, Error = None\<rparr>"
  let ?bad = "\<lparr>FromAccount = ''PUB'', ToAccount = ''DEST'', ResultAmount = 5, Signature = ''SIG'',
             Status = ''Failed'', ProcessingTime = 21,
             Error = Some (TransactionFailed ''insufficient funds'')\<rparr>"
  let ?config = "\<lparr>from_wallets = [wallet ''A''], to_wallets = [wallet ''D'']\<rparr>"
  have rec: "received lib0 (\<lambda>i. if i = 0 then gw_ok else gw_rejecting) [transfer0, transfer0] w0 =
     Some (Inr [?good, ?bad])"
    by (simp add: received_def run_workers_def executeTransfer_confirmed_run
          executeTransfer_rejected_run)
  have two: "[transfer0, transfer0] \<noteq> []" by simp
  have perm: "mset [?bad, ?good] = mset [?good, ?bad]" by simp
  have some: "to_wallets ?config \<noteq> []" by simp
  have plain: "ascii ''A''" "ascii ''D''" by (simp_all add: ascii_def)
  then have texts: "\<forall>wl\<in>set (from_wallets ?config @ to_wallets ?config). ascii (address wl)"
    by (simp add: wallet_def)
  note inst = exit_status_of_the_two_tools[OF rec two perm some texts, of rlib0 "\<lambda>i. gw_ok" 5 w0]
  have a: "go_exit_code (report 2 [?bad, ?good]) = 1"
    using inst[THEN conjunct2, THEN conjunct1] by (simp add: numeral_2_eq_2)
  have b: "rs_exit_code (main_rs rlib0 (\<lambda>i. gw_ok) ?config 5 w0) = 0"
    by (rule inst[THEN conjunct2, THEN conjunct2])
  show ?thesis using rec two some plain a b by (intro conjI)
qed

text \<open>
  The multi-wallet CLI with one transfer that fails on chain: the result is a
  failure, and the exit status is 0.
\<close>

theorem cli_exits_zero_after_failed_transfer:
  "execute_transfers rlib0 (\<lambda>i. gw_rejecting)
     \<lparr>from_wallets = [wallet ''A''], to_wallets = [wallet ''D'']\<rparr> 5 w0 =
     Inr [\<lparr>from_address = ''A'', to_address = ''D'', signature_text = ''FAILED'',
           success = False, processing_time = 0\<rparr>] \<and>
   rs_exit_code (main_rs rlib0 (\<lambda>i. gw_rejecting)
     \<lparr>from_wallets = [wallet ''A''], to_wallets = [wallet ''D'']\<rparr> 5 w0) = 0"
proof -
  have rgw: "signature_status gw_rejecting sig 0 = Present (Some ''insufficient funds'')"
    "recent_blockhash gw_rejecting = Inr ''HASH''" "send_transaction gw_rejecting tx = Inr ''SIG''"
    for sig tx
    by (simp_all add: gw_rejecting_def)
  have bad: "fst (execute_single_transfer rlib0 gw_rejecting ''A'' ''A'' ''D'' 5 w0) =
     Inl (FailedStatus ''insufficient funds'')"
    by (simp add: execute_single_transfer_def Let_def rlib0_def rgw max_retries_def
          confirmation_loop_Failed)
  have run: "execute_transfers rlib0 (\<lambda>i. gw_rejecting)
     \<lparr>from_wallets = [wallet ''A''], to_wallets = [wallet ''D'']\<rparr> 5 w0 =
     Inr [\<lparr>from_address = ''A'', to_address = ''D'', signature_text = ''FAILED'',
           success = False, processing_time = 0\<rparr>]"
    by (simp add: execute_transfers_def index_def wallet_def transfer_task_def bad)
  then show ?thesis by (simp add: main_rs_def rs_exit_code_def shorten_address_def)
qed

section \<open>Keys of the wrong length\<close>

text \<open>
  C6. An intent whose key is valid base64 of three bytes and whose
  destination address does not parse: the worker derives the account's public
  key at line 74, before it parses the address at line 77, and that call
  panics. The worker sends no result at all, where the claim has an error
  result for the malformed address.
\<close>

theorem malformed_address_behind_short_key_panics:
  "decode_string lib0 ''AQID'' = Inr [1, 2, 3] \<and>
   pubkey_from_base58 lib0 ''?'' = Inl ''invalid base58'' \<and>
   executeTransfer lib0 gw_ok \<lparr>FromPrivateKey = ''AQID'', ToAddress = ''?'', Amount = 5\<rparr> w0 =
     Some (Inl (LibraryPanic ''bad private key length''), w0)"
  by (simp add: executeTransfer_def lib0_def)

text \<open>
  C9. A key whose base64 decoding succeeds and gives three bytes is not
  rejected with an error by either Go program. The bulk worker panics when it
  derives the public key (line 74); \<^verbatim>\<open>sendTransaction\<close> panics at
  \<^verbatim>\<open>privateKeyBytes[:32]\<close> (line 139), the slice having capacity 3.
\<close>

theorem short_key_panics_in_both_go_tools:
  "decode_string lib0 (FromPrivateKey (transfer0\<lparr>FromPrivateKey := ''AQID''\<rparr>)) = Inr [1, 2, 3] \<and>
   executeTransfer lib0 gw_ok (transfer0\<lparr>FromPrivateKey := ''AQID''\<rparr>) w0 =
     Some (Inl (LibraryPanic ''bad private key length''), w0) \<and>
   sendTransaction lib0 gw_ok \<lparr>elems = [1, 2, 3], spare = []\<rparr> ''DEST'' 5 w0 =
     (Inl (SliceBoundsOutOfRange 32 3), w0)"
  by (simp add: executeTransfer_def sendTransaction_def slice_to_def cap_def lib0_def transfer0_def)

text \<open>
  C3. Two transfers, the second with the three-byte key: the second worker
  panics, and a panic in a goroutine ends the process (exit status 2). No
  result is reported, not even that of the first transfer, which the network
  would confirm.
\<close>

theorem short_key_ends_the_process:
  "main_go lib0 (\<lambda>i. gw_ok) [transfer0, transfer0\<lparr>FromPrivateKey := ''AQID''\<rparr>] w0 =
     Some (Inl (LibraryPanic ''bad private key length'')) \<and>
   go_exit_code (Inl (LibraryPanic ''bad private key length'')) = 2"
proof -
  have bad: "executeTransfer lib0 gw_ok (transfer0\<lparr>FromPrivateKey := ''AQID''\<rparr>) w0 =
     Some (Inl (LibraryPanic ''bad private key length''), w0)"
    by (simp add: executeTransfer_def lib0_def transfer0_def)
  show ?thesis
    by (simp add: main_go_def received_def run_workers_def executeTransfer_confirmed_run bad
          go_exit_code_def)
qed

end
